theory Spec2Isabelle
  imports Complex_Main
begin

section \<open>Python strings\<close>

text \<open>
  A Python \<open>str\<close> is modelled as a \<open>string\<close> (a list of 8-bit characters). The model of
  \<open>str.strip\<close> and \<open>str.upper\<close> below is exact on ASCII text, which is what postcodes and
  the ONSPD directory contain: the whitespace characters are the ASCII ones Python's
  \<open>str.isspace\<close> accepts (0x09..0x0D, 0x1C..0x1F and the space 0x20), and \<open>upper\<close> maps \<open>a..z\<close> to \<open>A..Z\<close>
  and leaves every other character alone.
\<close>

definition whitespace :: "char list" where
  "whitespace = [CHR 0x09, CHR 0x0A, CHR 0x0B, CHR 0x0C, CHR 0x0D,
                 CHR 0x1C, CHR 0x1D, CHR 0x1E, CHR 0x1F, CHR 0x20]"

definition is_space :: "char \<Rightarrow> bool" where
  "is_space c = (c \<in> set whitespace)"

definition strip_chars :: "(char \<Rightarrow> bool) \<Rightarrow> string \<Rightarrow> string" where
  "strip_chars P s = rev (dropWhile P (rev (dropWhile P s)))"

text \<open>\<open>s.strip()\<close>\<close>

definition str_strip :: "string \<Rightarrow> string" where
  "str_strip s = strip_chars is_space s"

text \<open>\<open>s.strip('"')\<close>: the double quote is character 0x22.\<close>

definition str_strip_quotes :: "string \<Rightarrow> string" where
  "str_strip_quotes s = strip_chars (\<lambda>c. c = CHR 0x22) s"

definition upper_table :: "(char \<times> char) list" where
  "upper_table = zip ''abcdefghijklmnopqrstuvwxyz'' ''ABCDEFGHIJKLMNOPQRSTUVWXYZ''"

definition char_upper :: "char \<Rightarrow> char" where
  "char_upper c = (case map_of upper_table c of Some u \<Rightarrow> u | None \<Rightarrow> c)"

text \<open>\<open>s.upper()\<close>\<close>

definition str_upper :: "string \<Rightarrow> string" where
  "str_upper s = map char_upper s"

text \<open>\<open>s.replace(" ", "")\<close>\<close>

definition str_remove_spaces :: "string \<Rightarrow> string" where
  "str_remove_spaces s = filter (\<lambda>c. c \<noteq> CHR '' '') s"

text \<open>\<open>sep.join(xs)\<close>\<close>

fun join :: "string \<Rightarrow> string list \<Rightarrow> string" where
  "join sep [] = []"
| "join sep [x] = x"
| "join sep (x # y # ys) = x @ sep @ join sep (y # ys)"

section \<open>scripts/postcode_to_borough.py\<close>

text \<open>The embedded table of London LAD codes, in the order of the source.\<close>

definition LONDON_LAD_CODE_TO_NAME :: "(string \<times> string) list" where
  "LONDON_LAD_CODE_TO_NAME = [
    (''E09000001'', ''City of London''),
    (''E09000002'', ''Barking and Dagenham''),
    (''E09000003'', ''Barnet''),
    (''E09000004'', ''Bexley''),
    (''E09000005'', ''Brent''),
    (''E09000006'', ''Bromley''),
    (''E09000007'', ''Camden''),
    (''E09000008'', ''Croydon''),
    (''E09000009'', ''Ealing''),
    (''E09000010'', ''Enfield''),
    (''E09000011'', ''Greenwich''),
    (''E09000012'', ''Hackney''),
    (''E09000013'', ''Hammersmith and Fulham''),
    (''E09000014'', ''Haringey''),
    (''E09000015'', ''Harrow''),
    (''E09000016'', ''Havering''),
    (''E09000017'', ''Hillingdon''),
    (''E09000018'', ''Hounslow''),
    (''E09000019'', ''Islington''),
    (''E09000020'', ''Kensington and Chelsea''),
    (''E09000021'', ''Kingston upon Thames''),
    (''E09000022'', ''Lambeth''),
    (''E09000023'', ''Lewisham''),
    (''E09000024'', ''Merton''),
    (''E09000025'', ''Newham''),
    (''E09000026'', ''Redbridge''),
    (''E09000027'', ''Richmond upon Thames''),
    (''E09000028'', ''Southwark''),
    (''E09000029'', ''Sutton''),
    (''E09000030'', ''Tower Hamlets''),
    (''E09000031'', ''Waltham Forest''),
    (''E09000032'', ''Wandsworth''),
    (''E09000033'', ''Westminster'')]"

text \<open>\<open>LONDON_LAD_CODE_TO_NAME.get(code)\<close> and \<open>code in LONDON_LAD_CODE_TO_NAME\<close>.\<close>

definition lad_name :: "string \<Rightarrow> string option" where
  "lad_name code = map_of LONDON_LAD_CODE_TO_NAME code"

definition is_london_lad :: "string \<Rightarrow> bool" where
  "is_london_lad code = (lad_name code \<noteq> None)"

text \<open>
  The codes \<open>E09000001 .. E09000033\<close> written out from their numbers, to compare the
  table's keys with.
\<close>

definition digit_char :: "nat \<Rightarrow> char" where
  "digit_char d = ''0123456789'' ! d"

definition lad_code :: "nat \<Rightarrow> string" where
  "lad_code n = ''E090000'' @ [digit_char (n div 10), digit_char (n mod 10)]"

definition london_lad_codes :: "string list" where
  "london_lad_codes = map lad_code [1..<34]"

definition REQUIRED_COLUMNS :: "string list" where
  "REQUIRED_COLUMNS = [''pcds'', ''lad25cd'']"

text \<open>
  \<open>normalize_postcode(pc)\<close>. For a \<open>str\<close> argument \<open>pc or ""\<close> is \<open>pc\<close>; \<open>s[:-3]\<close> and
  \<open>s[-3:]\<close> are taken where \<open>len(s) \<ge> 5\<close>.
\<close>

definition normalize_postcode :: "string \<Rightarrow> string" where
  "normalize_postcode pc =
     (let s = str_remove_spaces (str_upper (str_strip pc)) in
      if length s < 5 then str_upper (str_strip pc)
      else take (length s - 3) s @ '' '' @ drop (length s - 3) s)"

subsection \<open>Files and exceptions\<close>

text \<open>
  A file is what the two readers of the script make of it: the lines that iterating over
  the open text file yields, and the rows that \<open>csv.reader\<close> yields (a blank line is the
  row \<open>[]\<close>). The file system maps the paths that exist to their files. Decoding errors
  and \<open>csv.Error\<close> are below this interface.
\<close>

record disk_file =
  text_lines :: "string list"
  csv_rows :: "string list list"

type_synonym filesystem = "string \<rightharpoonup> disk_file"

text \<open>
  The exceptions of the script: the two it raises itself, with their messages, and the
  two the interpreter raises (\<open>x not in None\<close>, \<open>None.strip()\<close>), whose message is the
  interpreter's.
\<close>

datatype exn =
    FileNotFoundError string
  | ValueError string
  | TypeError
  | AttributeError

subsection \<open>csv.DictReader\<close>

text \<open>
  \<open>reader.fieldnames\<close> is the first row of the file, and \<open>None\<close> when the file has no row
  at all.
\<close>

fun fieldnames :: "string list list \<Rightarrow> string list option" where
  "fieldnames [] = None"
| "fieldnames (h # rs) = Some h"

text \<open>
  The dictionary \<open>DictReader\<close> makes of a row: \<open>dict(zip(fieldnames, row))\<close>, and every
  field name beyond the row's length set to \<open>restval = None\<close> (Python's \<open>None\<close> is the value
  \<open>None\<close> here, a string \<open>v\<close> is \<open>Some v\<close>). The surplus fields of a long row go under the
  key \<open>None\<close>, which no \<open>row.get\<close> of a string reads.
\<close>

definition dict_row :: "string list \<Rightarrow> string list \<Rightarrow> (string \<rightharpoonup> string option)" where
  "dict_row fns row =
     fold (\<lambda>k d. d(k \<mapsto> None)) (drop (length row) fns)
       (fold (\<lambda>(k, v) d. d(k \<mapsto> Some v)) (zip fns row) Map.empty)"

text \<open>\<open>row.get(key, "").strip().strip('"')\<close>: \<open>None.strip()\<close> raises \<open>AttributeError\<close>.\<close>

definition row_field :: "(string \<rightharpoonup> string option) \<Rightarrow> string \<Rightarrow> exn + string" where
  "row_field d key =
     (case d key of
        None \<Rightarrow> Inr (str_strip_quotes (str_strip []))
      | Some None \<Rightarrow> Inl AttributeError
      | Some (Some v) \<Rightarrow> Inr (str_strip_quotes (str_strip v)))"

subsection \<open>PostcodeToBoroughIndex\<close>

record index =
  onspd_csv_path :: string
  pcds_to_lad :: "string \<rightharpoonup> string"
  built :: bool

text \<open>\<open>__init__\<close>\<close>

definition init_index :: "string \<Rightarrow> index" where
  "init_index path = \<lparr>onspd_csv_path = path, pcds_to_lad = Map.empty, built = False\<rparr>"

text \<open>
  The loop \<open>for row in reader\<close> of \<open>build\<close>, over the rows after the header. \<open>DictReader\<close>
  skips the rows that are \<open>[]\<close>. The result is the exception that stopped the loop, if
  any, and the mapping as the loop left it.
\<close>

fun index_rows :: "string list \<Rightarrow> string list list \<Rightarrow> (string \<rightharpoonup> string)
    \<Rightarrow> exn option \<times> (string \<rightharpoonup> string)" where
  "index_rows fns [] m = (None, m)"
| "index_rows fns (row # rows) m =
     (if row = [] then index_rows fns rows m
      else
        (case row_field (dict_row fns row) ''lad25cd'' of
           Inl e \<Rightarrow> (Some e, m)
         | Inr lad \<Rightarrow>
             if is_london_lad lad then
               (case row_field (dict_row fns row) ''pcds'' of
                  Inl e \<Rightarrow> (Some e, m)
                | Inr pcds \<Rightarrow>
                    if pcds \<noteq> [] then index_rows fns rows (m(pcds \<mapsto> lad))
                    else index_rows fns rows m)
             else index_rows fns rows m))"

text \<open>
  \<open>build\<close>. An exception leaves the object as it is at the raise: \<open>_built\<close> is set only
  after the loop.
\<close>

definition build :: "filesystem \<Rightarrow> index \<Rightarrow> (exn + unit) \<times> index" where
  "build fs self =
     (if built self then (Inr (), self)
      else
        (case fs (onspd_csv_path self) of
           None \<Rightarrow>
             (Inl (FileNotFoundError (''ONSPD file not found: '' @ onspd_csv_path self)), self)
         | Some f \<Rightarrow>
             (case fieldnames (csv_rows f) of
                None \<Rightarrow> (Inl TypeError, self)
              | Some fns \<Rightarrow>
                  (let missing = filter (\<lambda>c. c \<notin> set fns) REQUIRED_COLUMNS in
                   if missing \<noteq> [] then
                     (Inl (ValueError (''ONSPD file is missing required columns: ''
                        @ join '', '' missing)), self)
                   else
                     (case index_rows fns (tl (csv_rows f)) (pcds_to_lad self) of
                        (Some e, m) \<Rightarrow> (Inl e, self\<lparr>pcds_to_lad := m\<rparr>)
                      | (None, m) \<Rightarrow>
                          (Inr (), self\<lparr>pcds_to_lad := m, built := True\<rparr>))))))"

text \<open>
  The method \<open>postcode_to_borough\<close>. \<open>if not lad\<close> holds for \<open>None\<close> and for the empty
  string.
\<close>

definition postcode_to_borough ::
    "filesystem \<Rightarrow> index \<Rightarrow> string \<Rightarrow> (exn + string option \<times> string option) \<times> index" where
  "postcode_to_borough fs self postcode =
     (case (if \<not> built self then build fs self else (Inr (), self)) of
        (Inl e, self') \<Rightarrow> (Inl e, self')
      | (Inr u, self') \<Rightarrow>
          (let pcds = normalize_postcode postcode in
           case pcds_to_lad self' pcds of
             None \<Rightarrow> (Inr (None, None), self')
           | Some lad \<Rightarrow>
               if lad = [] then (Inr (None, None), self')
               else (Inr (lad_name lad, Some lad), self')))"

text \<open>
  A history of the object: the calls made on it one after the other, each against the file
  system of its moment.
\<close>

datatype call = Build | Lookup string

fun call_index :: "index \<Rightarrow> filesystem \<times> call \<Rightarrow> index" where
  "call_index self (fs, Build) = snd (build fs self)"
| "call_index self (fs, Lookup postcode) = snd (postcode_to_borough fs self postcode)"

definition calls :: "index \<Rightarrow> (filesystem \<times> call) list \<Rightarrow> index" where
  "calls self cs = foldl call_index self cs"

subsection \<open>The command line\<close>

text \<open>The namespace \<open>parser.parse_args\<close> returns.\<close>

record args =
  postcodes :: "string list"
  onspd :: string
  infile :: "string option"
  outfile :: "string option"
  describe :: bool













subsection \<open>Invariant and sample data\<close>

text \<open>Every code stored in a mapping is one of \<open>E09000001 .. E09000033\<close>.\<close>

definition london_values :: "(string \<rightharpoonup> string) \<Rightarrow> bool" where
  "london_values m = (ran m \<subseteq> set london_lad_codes)"

text \<open>A small directory: a header, two London rows, a blank line and a row outside London.\<close>

definition onspd_sample :: filesystem where
  "onspd_sample = [''onspd.csv'' \<mapsto> \<lparr>text_lines = [], csv_rows =
      [[''pcds'', ''lad25cd''],
       [''SW1A 1AA'', ''E09000033''],
       [],
       [''AB1 0AA'', ''S12000033''],
       [''E1 6AN'', ''E09000030'']]\<rparr>]"

text \<open>A directory whose postcode is written in lower case without a space.\<close>

definition onspd_lowercase :: filesystem where
  "onspd_lowercase = [''onspd.csv'' \<mapsto> \<lparr>text_lines = [], csv_rows =
      [[''pcds'', ''lad25cd''],
       [''sw1a1aa'', ''E09000033'']]\<rparr>]"

text \<open>A directory file that exists and is empty (zero bytes).\<close>

definition onspd_empty :: filesystem where
  "onspd_empty = [''onspd.csv'' \<mapsto> \<lparr>text_lines = [], csv_rows = []\<rparr>]"

text \<open>
  The \<open>pcds\<close> fields of the rows, as \<open>build\<close> cleans them, are already in the form
  \<open>normalize_postcode\<close> produces.
\<close>

definition pcds_canonical :: "string list \<Rightarrow> string list list \<Rightarrow> bool" where
  "pcds_canonical fns rows =
     list_all (\<lambda>row. case row_field (dict_row fns row) ''pcds'' of
                        Inl e \<Rightarrow> True
                      | Inr p \<Rightarrow> normalize_postcode p = p) rows"





section \<open>app/main.py\<close>

subsection \<open>Values\<close>

text \<open>
  A Python \<open>float\<close>: a real number, an infinity or a NaN. Every binary64 value is one of
  these; the arithmetic of the handler (\<open>np.expm1\<close>, \<open>round(_, 2)\<close>) is not computed here
  but taken as two functions on these values.
\<close>

datatype pyfloat = Finite real | PosInf | NegInf | NaN

record float_ops =
  np_expm1 :: "pyfloat \<Rightarrow> pyfloat"
  round2 :: "pyfloat \<Rightarrow> pyfloat"

text \<open>The comparisons of the field constraints \<open>gt\<close>, \<open>ge\<close>, \<open>lt\<close> against a constant.\<close>

fun float_gt :: "pyfloat \<Rightarrow> real \<Rightarrow> bool" where
  "float_gt (Finite r) c = (c < r)"
| "float_gt PosInf c = True"
| "float_gt NegInf c = False"
| "float_gt NaN c = False"

fun float_ge :: "pyfloat \<Rightarrow> real \<Rightarrow> bool" where
  "float_ge (Finite r) c = (c \<le> r)"
| "float_ge PosInf c = True"
| "float_ge NegInf c = False"
| "float_ge NaN c = False"

fun float_lt :: "pyfloat \<Rightarrow> real \<Rightarrow> bool" where
  "float_lt (Finite r) c = (r < c)"
| "float_lt PosInf c = False"
| "float_lt NegInf c = True"
| "float_lt NaN c = False"

text \<open>The values of the fields of a payload, as they are put into the row for the model.\<close>

datatype pyval = PStr string | PInt int | PFloat pyfloat

text \<open>
  An exception object, an instance of \<open>Exception\<close>: its class name and \<open>str(e)\<close>. Signals
  that derive from \<open>BaseException\<close> only (a keyboard interrupt, an exit) are not modelled.
\<close>

datatype py_exception = PyException (exc_type: string) (exc_str: string)

datatype http_exception = HTTPException (status_code: int) (detail: string)

subsection \<open>HouseFeatures\<close>

record HouseFeatures =
  property_type :: string
  tenure :: string
  postcode :: string
  borough :: string
  floor_area :: pyfloat
  bedrooms :: int
  bathrooms :: int
  distance_to_station_km :: pyfloat
  sale_year :: int
  sale_quarter :: int
  lat :: pyfloat
  lon :: pyfloat

text \<open>The constraints of the \<open>Field\<close> declarations, which the framework checks before the handler runs.\<close>

definition HouseFeatures_valid :: "HouseFeatures \<Rightarrow> bool" where
  "HouseFeatures_valid x =
     (float_gt (floor_area x) 5 \<and> float_lt (floor_area x) 1000 \<and>
      0 \<le> bedrooms x \<and> bedrooms x \<le> 15 \<and>
      0 \<le> bathrooms x \<and> bathrooms x \<le> 10 \<and>
      float_ge (distance_to_station_km x) 0 \<and> float_lt (distance_to_station_km x) 20 \<and>
      1995 \<le> sale_year x \<and> sale_year x \<le> 2100 \<and>
      1 \<le> sale_quarter x \<and> sale_quarter x \<le> 4)"

text \<open>The fields of the model class with their values, in declaration order.\<close>

definition model_fields :: "HouseFeatures \<Rightarrow> (string \<times> pyval) list" where
  "model_fields x = [
     (''property_type'', PStr (property_type x)),
     (''tenure'', PStr (tenure x)),
     (''postcode'', PStr (postcode x)),
     (''borough'', PStr (borough x)),
     (''floor_area'', PFloat (floor_area x)),
     (''bedrooms'', PInt (bedrooms x)),
     (''bathrooms'', PInt (bathrooms x)),
     (''distance_to_station_km'', PFloat (distance_to_station_km x)),
     (''sale_year'', PInt (sale_year x)),
     (''sale_quarter'', PInt (sale_quarter x)),
     (''lat'', PFloat (lat x)),
     (''lon'', PFloat (lon x))]"

text \<open>
  \<open>getattr(x, k)\<close> on the fields of the payload; any other name raises \<open>AttributeError\<close>
  (the attributes the pydantic base class itself has are not modelled). The message is
  \<open>'HouseFeatures' object has no attribute 'k'\<close>; 0x27 is the single quote.
\<close>

definition no_attribute :: "string \<Rightarrow> py_exception" where
  "no_attribute k = PyException ''AttributeError''
     ([CHR 0x27] @ ''HouseFeatures'' @ [CHR 0x27] @ '' object has no attribute ''
       @ [CHR 0x27] @ k @ [CHR 0x27])"

definition getattr :: "HouseFeatures \<Rightarrow> string \<Rightarrow> py_exception + pyval" where
  "getattr x k = (case map_of (model_fields x) k of Some v \<Rightarrow> Inr v | None \<Rightarrow> Inl (no_attribute k))"

subsection \<open>The artifact\<close>

text \<open>
  The values the dictionary \<open>ART\<close> can hold: a list of names, a string, a fitted model, or
  an object that is none of these. To the handler a fitted model is its \<open>predict\<close> method,
  which returns the predictions for the rows it is given or raises. The global \<open>ART\<close> is
  \<open>None\<close> here when the name is not bound. The messages of the interpreter's \<open>TypeError\<close>,
  \<open>AttributeError\<close> and \<open>IndexError\<close> below leave out the class of the object they name.
\<close>

type_synonym predictor = "pyval list list \<Rightarrow> py_exception + pyfloat list"

datatype 'm art_value =
    Names "string list"
  | Text string
  | Regressor 'm
  | Other

type_synonym 'm artifact = "string \<rightharpoonup> 'm art_value"

text \<open>\<open>ART[key]\<close>\<close>

definition art_item :: "'m artifact option \<Rightarrow> string \<Rightarrow> py_exception + 'm art_value" where
  "art_item ART key =
     (case ART of
        None \<Rightarrow> Inl (PyException ''NameError''
                  (''name '' @ [CHR 0x27] @ ''ART'' @ [CHR 0x27] @ '' is not defined''))
      | Some d \<Rightarrow>
          (case d key of
             None \<Rightarrow> Inl (PyException ''KeyError'' ([CHR 0x27] @ key @ [CHR 0x27]))
           | Some v \<Rightarrow> Inr v))"

text \<open>\<open>for k in feats\<close>: the names of a list, the characters of a string.\<close>

fun iterate :: "'m art_value \<Rightarrow> py_exception + string list" where
  "iterate (Names ks) = Inr ks"
| "iterate (Text s) = Inr (map (\<lambda>c. [c]) s)"
| "iterate v = Inl (PyException ''TypeError'' ''object is not iterable'')"

text \<open>
  The comprehension \<open>{k: getattr(x, k) for k in feats}\<close>: the dictionary as a list of
  items in insertion order. A key met again keeps its place and takes the new value.
\<close>

fun dict_set :: "(string \<times> pyval) list \<Rightarrow> string \<Rightarrow> pyval \<Rightarrow> (string \<times> pyval) list" where
  "dict_set [] k v = [(k, v)]"
| "dict_set ((k', v') # d) k v = (if k' = k then (k, v) # d else (k', v') # dict_set d k v)"

fun build_row :: "HouseFeatures \<Rightarrow> string list \<Rightarrow> (string \<times> pyval) list
    \<Rightarrow> py_exception + (string \<times> pyval) list" where
  "build_row x [] d = Inr d"
| "build_row x (k # ks) d =
     (case getattr x k of
        Inl e \<Rightarrow> Inl e
      | Inr v \<Rightarrow> build_row x ks (dict_set d k v))"

text \<open>\<open>ART["model"].predict\<close>: only a regressor has the method.\<close>

fun predict_method :: "predictor art_value \<Rightarrow> py_exception + predictor" where
  "predict_method (Regressor f) = Inr f"
| "predict_method v = Inl (PyException ''AttributeError'' ''object has no attribute predict'')"

text \<open>\<open>preds[0]\<close>\<close>

fun first_item :: "pyfloat list \<Rightarrow> py_exception + pyfloat" where
  "first_item [] = Inl (PyException ''IndexError'' ''index 0 is out of bounds'')"
| "first_item (p # ps) = Inr p"

record response =
  estimated_price_gbp :: pyfloat
  explain :: "(string \<times> string) list"

definition explain_notes :: "(string \<times> string) list" where
  "explain_notes = [
     (''area_note'', ''Estimates reflect borough + proximity to public transport more than fine-grained street effects.''),
     (''currency'', ''GBP''),
     (''model'', ''CatBoostRegressor (MAE on CV shown during training)'')]"

text \<open>The body of the \<open>try\<close> block of \<open>predict\<close>.\<close>

definition predict_try ::
    "float_ops \<Rightarrow> predictor artifact option \<Rightarrow> HouseFeatures \<Rightarrow> py_exception + response" where
  "predict_try ops ART x =
     (case art_item ART ''features'' of
        Inl e \<Rightarrow> Inl e
      | Inr feats \<Rightarrow>
     (case iterate feats of
        Inl e \<Rightarrow> Inl e
      | Inr ks \<Rightarrow>
     (case build_row x ks [] of
        Inl e \<Rightarrow> Inl e
      | Inr row \<Rightarrow>
     (case art_item ART ''model'' of
        Inl e \<Rightarrow> Inl e
      | Inr model \<Rightarrow>
     (case predict_method model of
        Inl e \<Rightarrow> Inl e
      | Inr f \<Rightarrow>
     (case f [map snd row] of
        Inl e \<Rightarrow> Inl e
      | Inr preds \<Rightarrow>
     (case first_item preds of
        Inl e \<Rightarrow> Inl e
      | Inr pred_log \<Rightarrow>
          Inr \<lparr>estimated_price_gbp = round2 ops (np_expm1 ops pred_log),
               explain = explain_notes\<rparr>)))))))"

text \<open>\<open>predict\<close>: \<open>except Exception as e: raise HTTPException(status_code=400, detail=str(e))\<close>.\<close>

definition predict ::
    "float_ops \<Rightarrow> predictor artifact option \<Rightarrow> HouseFeatures \<Rightarrow> http_exception + response" where
  "predict ops ART x =
     (case predict_try ops ART x of
        Inl e \<Rightarrow> Inl (HTTPException 400 (exc_str e))
      | Inr r \<Rightarrow> Inr r)"

section \<open>model.py\<close>

definition TARGET :: string where
  "TARGET = ''price_paid''"

definition CATS :: "string list" where
  "CATS = [''property_type'', ''tenure'', ''postcode'', ''borough'']"

definition NUMS :: "string list" where
  "NUMS = [''floor_area'', ''bedrooms'', ''bathrooms'', ''distance_to_station_km'',
           ''sale_year'', ''sale_quarter'', ''imd_decile'', ''lat'', ''lon'']"

definition FEATS :: "string list" where
  "FEATS = CATS @ NUMS"

text \<open>The dictionary \<open>artifacts\<close> the script serializes, for the fitted final model.\<close>

definition artifacts :: "'m \<Rightarrow> 'm artifact" where
  "artifacts final_model = [
     ''model'' \<mapsto> Regressor final_model,
     ''features'' \<mapsto> Names FEATS,
     ''cat_features'' \<mapsto> Names CATS,
     ''num_features'' \<mapsto> Names NUMS,
     ''target'' \<mapsto> Text TARGET]"

definition DATA :: string where
  "DATA = ''data/london_ppd_prepared.parquet''"

subsection \<open>Data frames\<close>

text \<open>
  A row of the prepared dataset gives every column name a number or a string, or nothing
  when the value is missing (\<open>NaN\<close>, \<open>None\<close>). The columns of \<open>CATS\<close> hold strings, the
  target and the other columns numbers (the schema of the parquet file); infinities do
  not occur. A data frame is the list of its rows, and \<open>df.iloc[positions]\<close> the rows at
  the given positions.
\<close>

record df_row =
  num_col :: "string \<Rightarrow> real option"
  cat_col :: "string \<Rightarrow> string option"

definition missing :: "df_row \<Rightarrow> string \<Rightarrow> bool" where
  "missing r c = (if c \<in> set CATS then cat_col r c = None else num_col r c = None)"

text \<open>\<open>df.dropna(subset=cols)\<close>\<close>

definition dropna :: "string list \<Rightarrow> df_row list \<Rightarrow> df_row list" where
  "dropna cols df = filter (\<lambda>r. list_all (\<lambda>c. \<not> missing r c) cols) df"

text \<open>\<open>df[name] = values\<close>, for a numeric column computed row by row.\<close>

definition with_column :: "string \<Rightarrow> (df_row \<Rightarrow> real option) \<Rightarrow> df_row list \<Rightarrow> df_row list" where
  "with_column name f df = map (\<lambda>r. r\<lparr>num_col := (num_col r)(name := f r)\<rparr>) df"

text \<open>\<open>df[cols]\<close>: the frame with the columns \<open>cols\<close> only.\<close>

definition select :: "string list \<Rightarrow> df_row list \<Rightarrow> df_row list" where
  "select cols df =
     map (\<lambda>r. \<lparr>num_col = (\<lambda>c. if c \<in> set cols then num_col r c else None),
               cat_col = (\<lambda>c. if c \<in> set cols then cat_col r c else None)\<rparr>) df"


text \<open>\<open>(df["sale_year"] // 2) * 2\<close>: floor division, a missing year stays missing.\<close>

definition year_group :: "df_row \<Rightarrow> real option" where
  "year_group r = map_option (\<lambda>y. of_int \<lfloor>y / 2\<rfloor> * 2) (num_col r ''sale_year'')"

subsection \<open>The libraries\<close>

text \<open>\<open>Pool(data, label=..., cat_features=...)\<close>\<close>

record pool =
  pool_data :: "df_row list"
  label :: "real option list"
  cat_features :: "string list"

text \<open>The arguments of \<open>CatBoostRegressor(...)\<close> and of its \<open>fit\<close>.\<close>

record fit_params =
  depth :: nat
  learning_rate :: real
  loss_function :: string
  n_estimators :: nat
  subsample :: real
  colsample_bylevel :: real
  random_seed :: nat
  overfitting_detector :: "(string \<times> nat) option"
  use_best_model :: bool

text \<open>
  What the script calls and does not define: reading the parquet file, the splitter of
  scikit-learn (for a number of splits and the group of each row, the training and
  validation positions of each fold), fitting a regressor on a pool with an optional
  validation pool, its predictions on a pool, and the floating-point functions. They are
  taken to return; where one raises, the script stops there.
\<close>

record 'm library =
  read_parquet :: "string \<Rightarrow> df_row list"
  group_kfold_split :: "nat \<Rightarrow> real option list \<Rightarrow> (nat list \<times> nat list) list"
  catboost_fit :: "fit_params \<Rightarrow> pool \<Rightarrow> pool option \<Rightarrow> 'm"
  catboost_predict :: "'m \<Rightarrow> pool \<Rightarrow> real list"
  log1p :: "real \<Rightarrow> real"
  expm1 :: "real \<Rightarrow> real"
  mean_absolute_error :: "real option list \<Rightarrow> real list \<Rightarrow> real"


subsection \<open>The script\<close>


text \<open>
  When the final regressor is created the name \<open>final_model\<close> is not bound yet, so
  \<open>n_estimators\<close> is 3000.
\<close>

definition final_params :: fit_params where
  "final_params = \<lparr>depth = 8, learning_rate = 5 / 100, loss_function = ''MAE'',
     n_estimators = 3000, subsample = 8 / 10, colsample_bylevel = 8 / 10, random_seed = 42,
     overfitting_detector = None, use_best_model = False\<rparr>"

text \<open>\<open>Pool(frame[FEATS], label=frame["log_price"], cat_features=CATS)\<close>\<close>

definition make_pool :: "df_row list \<Rightarrow> pool" where
  "make_pool frame = \<lparr>pool_data = select FEATS frame,
                       label = map (\<lambda>r. num_col r ''log_price'') frame,
                       cat_features = CATS\<rparr>"

text \<open>The frame after \<open>dropna\<close> and the two added columns.\<close>

definition training_frame :: "'m library \<Rightarrow> df_row list" where
  "training_frame lib =
     with_column ''year_group'' year_group
       (with_column ''log_price'' (\<lambda>r. map_option (log1p lib) (num_col r TARGET))
          (dropna (TARGET # FEATS) (read_parquet lib DATA)))"






definition final_model :: "'m library \<Rightarrow> 'm" where
  "final_model lib = catboost_fit lib final_params (make_pool (training_frame lib)) None"


subsection \<open>Sample data and the notions the properties use\<close>

text \<open>A payload that passes validation.\<close>

definition sample_payload :: HouseFeatures where
  "sample_payload = \<lparr>property_type = ''F'', tenure = ''L'', postcode = ''E1 6AN'',
     borough = ''Tower Hamlets'', floor_area = Finite 55, bedrooms = 2, bathrooms = 1,
     distance_to_station_km = Finite (1/2), sale_year = 2024, sale_quarter = 3,
     lat = Finite (515/10), lon = Finite 0\<rparr>"

text \<open>Stand-ins for the two floating-point functions, and a small artifact.\<close>

definition sample_ops :: float_ops where
  "sample_ops = \<lparr>np_expm1 = (\<lambda>v. v), round2 = (\<lambda>v. v)\<rparr>"

definition sample_artifact :: "predictor artifact" where
  "sample_artifact = [''model'' \<mapsto> Regressor (\<lambda>X. Inr [Finite 13]),
                      ''features'' \<mapsto> Names [''borough'', ''floor_area'', ''bedrooms'']]"

text \<open>The names the handler reads from the payload, for a given \<open>ART\<close>.\<close>

definition feature_keys :: "'m artifact option \<Rightarrow> string list" where
  "feature_keys ART =
     (case art_item ART ''features'' of
        Inl e \<Rightarrow> []
      | Inr feats \<Rightarrow> (case iterate feats of Inl e \<Rightarrow> [] | Inr ks \<Rightarrow> ks))"






section \<open>Properties of normalize_postcode\<close>



lemma upper_eq_space: "char_upper c = CHR '' '' \<longleftrightarrow> c = CHR '' ''"
  by (auto simp: char_upper_def upper_table_def split: option.splits if_splits)











section \<open>Properties of the postcode index\<close>

subsection \<open>The allow-list\<close>

lemma table_keys: "map fst LONDON_LAD_CODE_TO_NAME = london_lad_codes"
  by (simp add: LONDON_LAD_CODE_TO_NAME_def london_lad_codes_def lad_code_def digit_char_def
      upt_rec)

lemma is_london_lad_iff: "is_london_lad c \<longleftrightarrow> c \<in> set london_lad_codes"
  unfolding is_london_lad_def lad_name_def table_keys [symmetric]
  by (simp add: map_of_eq_None_iff)

lemma london_values_upd:
  "london_values m \<Longrightarrow> is_london_lad lad \<Longrightarrow> london_values (m(k \<mapsto> lad))"
  unfolding london_values_def is_london_lad_iff
  by (auto simp: ran_def)

subsection \<open>The loop of build keeps the invariant\<close>

lemma index_rows_london:
  "london_values m \<Longrightarrow> index_rows fns rows m = (e, m') \<Longrightarrow> london_values m'"
proof (induction rows arbitrary: m)
  case Nil
  then show ?case by simp
next
  case (Cons row rows)
  show ?case
  proof (cases "row = []")
    case True
    with Cons show ?thesis by simp
  next
    case False
    show ?thesis
    proof (cases "row_field (dict_row fns row) ''lad25cd''")
      case (Inl x)
      with False Cons.prems show ?thesis by simp
    next
      case lad: (Inr lad)
      show ?thesis
      proof (cases "is_london_lad lad")
        case no: False
        with False lad Cons show ?thesis by simp
      next
        case yes: True
        show ?thesis
        proof (cases "row_field (dict_row fns row) ''pcds''")
          case (Inl x)
          with False lad yes Cons.prems show ?thesis by simp
        next
          case (Inr pcds)
          show ?thesis
          proof (cases "pcds = []")
            case True
            with False lad yes Inr Cons show ?thesis by simp
          next
            case ne: False
            have "london_values (m(pcds \<mapsto> lad))"
              using Cons.prems(1) yes by (rule london_values_upd)
            moreover have "index_rows fns rows (m(pcds \<mapsto> lad)) = (e, m')"
              using Cons.prems(2) False lad yes Inr ne by simp
            ultimately show ?thesis by (rule Cons.IH)
          qed
        qed
      qed
    qed
  qed
qed

lemma build_london:
  assumes "london_values (pcds_to_lad idx)"
  shows "london_values (pcds_to_lad (snd (build fs idx)))"
  using assms index_rows_london [OF assms]
  by (auto simp: build_def Let_def split: option.splits prod.splits)

lemma lookup_state:
  "snd (postcode_to_borough fs idx p) = (if built idx then idx else snd (build fs idx))"
  by (auto simp: postcode_to_borough_def Let_def split: prod.splits sum.splits option.splits)

lemma call_index_london:
  "london_values (pcds_to_lad idx) \<Longrightarrow> london_values (pcds_to_lad (call_index idx c))"
  by (cases c; rename_tac fs k; case_tac k) (simp_all add: build_london lookup_state)

lemma calls_london:
  "london_values (pcds_to_lad idx) \<Longrightarrow> london_values (pcds_to_lad (calls idx cs))"
  unfolding calls_def
  by (induction cs arbitrary: idx) (simp_all add: call_index_london)

lemma lookup_built:
  assumes "built idx"
  shows "postcode_to_borough fs idx p =
     ((case pcds_to_lad idx (normalize_postcode p) of
         None \<Rightarrow> Inr (None, None)
       | Some lad \<Rightarrow> if lad = [] then Inr (None, None) else Inr (lad_name lad, Some lad)), idx)"
  using assms by (simp add: postcode_to_borough_def Let_def split: option.splits)

lemmas eval_defs = build_def init_index_def REQUIRED_COLUMNS_def dict_row_def row_field_def
  str_strip_def str_strip_quotes_def strip_chars_def is_space_def whitespace_def
  is_london_lad_def lad_name_def LONDON_LAD_CODE_TO_NAME_def calls_def

lemma sample_built:
  "calls (init_index ''onspd.csv'') [(onspd_sample, Build)] =
     \<lparr>onspd_csv_path = ''onspd.csv'',
      pcds_to_lad = [''SW1A 1AA'' \<mapsto> ''E09000033'', ''E1 6AN'' \<mapsto> ''E09000030''],
      built = True\<rparr>"
  by (simp add: onspd_sample_def eval_defs)

text \<open>
  Claim C1. Take an index object at any point of its life, that is after any sequence of
  \<open>build\<close> and \<open>postcode_to_borough\<close> calls on a fresh object, whatever the files were,
  and suppose \<open>build\<close> has completed (the flag \<open>_built\<close> is set). Then every value stored
  in the index is one of the 33 codes \<open>E09000001 .. E09000033\<close>, and every lookup returns
  \<open>(None, None)\<close> or a pair \<open>(name, code)\<close> whose code is one of the 33 and whose name is the
  one the table gives that code.
\<close>

theorem index_values_in_allow_list:
  assumes "idx = calls (init_index path) cs" and "built idx"
  shows "ran (pcds_to_lad idx) \<subseteq> set london_lad_codes \<and>
    (\<forall>fs p.
       fst (postcode_to_borough fs idx p) = Inr (None, None) \<or>
       (\<exists>name code. fst (postcode_to_borough fs idx p) = Inr (Some name, Some code)
          \<and> code \<in> set london_lad_codes
          \<and> map_of LONDON_LAD_CODE_TO_NAME code = Some name))"
proof -
  have "london_values (pcds_to_lad (init_index path))"
    by (simp add: init_index_def london_values_def)
  then have inv: "london_values (pcds_to_lad idx)"
    unfolding assms(1) by (rule calls_london)
  then have ran: "ran (pcds_to_lad idx) \<subseteq> set london_lad_codes"
    by (simp add: london_values_def)
  have "fst (postcode_to_borough fs idx p) = Inr (None, None) \<or>
       (\<exists>name code. fst (postcode_to_borough fs idx p) = Inr (Some name, Some code)
          \<and> code \<in> set london_lad_codes
          \<and> map_of LONDON_LAD_CODE_TO_NAME code = Some name)" for fs p
  proof (cases "pcds_to_lad idx (normalize_postcode p)")
    case None
    then show ?thesis by (simp add: lookup_built [OF assms(2)])
  next
    case (Some lad)
    then have "lad \<in> set london_lad_codes"
      using ran by (auto simp: ran_def)
    then obtain name where "lad_name lad = Some name"
      using is_london_lad_iff [of lad] by (auto simp: is_london_lad_def)
    with Some \<open>lad \<in> set london_lad_codes\<close> show ?thesis
      by (simp add: lookup_built [OF assms(2)] lad_name_def)
  qed
  with ran show ?thesis by blast
qed

theorem index_values_in_allow_list_witness:
  "built (calls (init_index ''onspd.csv'') [(onspd_sample, Build)]) \<and>
   ran (pcds_to_lad (calls (init_index ''onspd.csv'') [(onspd_sample, Build)]))
     \<subseteq> set london_lad_codes"
  using index_values_in_allow_list
    [of "calls (init_index ''onspd.csv'') [(onspd_sample, Build)]" "''onspd.csv''"
        "[(onspd_sample, Build)]"]
  by (simp add: sample_built)

text \<open>
  Claim C7. Once \<open>build\<close> has completed, a further \<open>build\<close> is a no-op that returns
  normally, \<open>postcode_to_borough\<close> leaves the object (mapping and flag) as it was, and so
  does every sequence of such calls, whatever the files are by then: no entry is removed
  or changed.
\<close>

theorem built_index_is_frozen:
  assumes "built idx"
  shows "build fs idx = (Inr (), idx) \<and>
         snd (postcode_to_borough fs idx p) = idx \<and>
         calls idx cs = idx"
proof -
  have b: "build fs' idx = (Inr (), idx)" for fs'
    using assms by (simp add: build_def)
  have l: "snd (postcode_to_borough fs' idx p) = idx" for fs' p
    using assms by (simp add: lookup_state)
  have "call_index idx c = idx" for c
    by (cases c; rename_tac fs' k; case_tac k) (simp_all add: b l)
  then have "calls idx cs = idx"
    unfolding calls_def by (induction cs) simp_all
  with b l show ?thesis by simp
qed

theorem built_index_is_frozen_witness:
  "built (calls (init_index ''onspd.csv'') [(onspd_sample, Build)]) \<and>
   calls (calls (init_index ''onspd.csv'') [(onspd_sample, Build)])
     [(Map.empty, Lookup ''sw1a 1aa''), (Map.empty, Build)]
   = calls (init_index ''onspd.csv'') [(onspd_sample, Build)]"
  using built_index_is_frozen
    [of "calls (init_index ''onspd.csv'') [(onspd_sample, Build)]" Map.empty "''sw1a 1aa''"
        "[(Map.empty, Lookup ''sw1a 1aa''), (Map.empty, Build)]"]
  by (simp add: sample_built)

lemmas norm_defs = normalize_postcode_def str_remove_spaces_def str_upper_def str_strip_def
  strip_chars_def is_space_def whitespace_def char_upper_def upper_table_def




subsection \<open>The keys of the index\<close>

lemma index_rows_keys:
  "index_rows fns rows m = (e, m') \<Longrightarrow> m' k = Some lad \<Longrightarrow>
     m k = Some lad \<or>
     (\<exists>row\<in>set rows. row_field (dict_row fns row) ''pcds'' = Inr k \<and>
         row_field (dict_row fns row) ''lad25cd'' = Inr lad \<and> k \<noteq> [] \<and> is_london_lad lad)"
proof (induction rows arbitrary: m)
  case Nil
  then show ?case by simp
next
  case (Cons row rows)
  show ?case
  proof (cases "\<exists>p l. row \<noteq> [] \<and> row_field (dict_row fns row) ''lad25cd'' = Inr l \<and> is_london_lad l
      \<and> row_field (dict_row fns row) ''pcds'' = Inr p \<and> p \<noteq> []")
    case True
    then obtain p l where pl: "row \<noteq> []" "row_field (dict_row fns row) ''lad25cd'' = Inr l"
      "is_london_lad l" "row_field (dict_row fns row) ''pcds'' = Inr p" "p \<noteq> []" by blast
    then have "index_rows fns rows (m(p \<mapsto> l)) = (e, m')"
      using Cons.prems(1) by simp
    from Cons.IH [OF this Cons.prems(2)] pl show ?thesis
      by (auto split: if_splits)
  next
    case False
    show ?thesis
    proof (cases "index_rows fns rows m = (e, m')")
      case True
      from Cons.IH [OF this Cons.prems(2)] show ?thesis by auto
    next
      case stop: False
      with False Cons.prems(1) have "m' = m"
        by (auto split: if_splits sum.splits)
      with Cons.prems(2) show ?thesis by simp
    qed
  qed
qed

lemma build_ok:
  assumes "build fs idx0 = (Inr (), idx)" and "\<not> built idx0"
  shows "\<exists>f fns m. fs (onspd_csv_path idx0) = Some f \<and> fieldnames (csv_rows f) = Some fns \<and>
           index_rows fns (tl (csv_rows f)) (pcds_to_lad idx0) = (None, m) \<and>
           idx = idx0\<lparr>pcds_to_lad := m, built := True\<rparr>"
  using assms
  by (auto simp: build_def Let_def split: option.splits if_splits prod.splits)

text \<open>
  Claim C3, as the specification states it: every key \<open>k\<close> stored by \<open>build\<close> satisfies
  \<open>normalize_postcode(k) = k\<close>, for every CSV input. It fails: \<open>build\<close> stores the \<open>pcds\<close>
  field as it finds it, so a file that spells a postcode \<open>sw1a1aa\<close> yields that key.
\<close>

theorem index_key_not_normalized:
  "build onspd_lowercase (init_index ''onspd.csv'') =
     (Inr (), \<lparr>onspd_csv_path = ''onspd.csv'',
               pcds_to_lad = [''sw1a1aa'' \<mapsto> ''E09000033''], built = True\<rparr>) \<and>
   normalize_postcode ''sw1a1aa'' \<noteq> ''sw1a1aa''"
  by (simp add: onspd_lowercase_def eval_defs norm_defs)

text \<open>
  Claim C3, amended. Every key stored by \<open>build\<close> on a fresh object is the \<open>pcds\<close> field of
  a row of the file whose \<open>lad25cd\<close> field is the value stored, with surrounding whitespace
  and then surrounding double quotes stripped, and is not empty; it is stored without
  normalization. So \<open>normalize_postcode(k) = k\<close> holds for every key when the stripped
  \<open>pcds\<close> fields of the file are already in normalized form.
\<close>

theorem index_keys_come_from_file:
  assumes "build fs (init_index path) = (Inr (), idx)" and "pcds_to_lad idx k = Some lad"
  shows "\<exists>f fns. fs path = Some f \<and> fieldnames (csv_rows f) = Some fns \<and>
           (\<exists>row\<in>set (tl (csv_rows f)).
               row_field (dict_row fns row) ''pcds'' = Inr k \<and>
               row_field (dict_row fns row) ''lad25cd'' = Inr lad \<and> k \<noteq> []) \<and>
           (pcds_canonical fns (tl (csv_rows f)) \<longrightarrow> normalize_postcode k = k)"
proof -
  from build_ok [OF assms(1)] obtain f fns m where
    f: "fs path = Some f" "fieldnames (csv_rows f) = Some fns"
    and m: "index_rows fns (tl (csv_rows f)) Map.empty = (None, m)"
    and idx: "idx = (init_index path)\<lparr>pcds_to_lad := m, built := True\<rparr>"
    by (auto simp: init_index_def)
  from idx assms(2) have "m k = Some lad" by simp
  from index_rows_keys [OF m this] obtain row where
    row: "row \<in> set (tl (csv_rows f))" "row_field (dict_row fns row) ''pcds'' = Inr k"
      "row_field (dict_row fns row) ''lad25cd'' = Inr lad" "k \<noteq> []"
    by auto
  then have "pcds_canonical fns (tl (csv_rows f)) \<Longrightarrow> normalize_postcode k = k"
    by (auto simp: pcds_canonical_def list_all_iff)
  with f row show ?thesis by blast
qed

theorem index_keys_come_from_file_witness:
  "build onspd_sample (init_index ''onspd.csv'') =
     (Inr (), \<lparr>onspd_csv_path = ''onspd.csv'',
      pcds_to_lad = [''SW1A 1AA'' \<mapsto> ''E09000033'', ''E1 6AN'' \<mapsto> ''E09000030''],
      built = True\<rparr>) \<and>
   pcds_canonical [''pcds'', ''lad25cd'']
     [[''SW1A 1AA'', ''E09000033''], [], [''AB1 0AA'', ''S12000033''], [''E1 6AN'', ''E09000030'']] \<and>
   normalize_postcode ''E1 6AN'' = ''E1 6AN''"
proof -
  have b: "build onspd_sample (init_index ''onspd.csv'') =
     (Inr (), \<lparr>onspd_csv_path = ''onspd.csv'',
      pcds_to_lad = [''SW1A 1AA'' \<mapsto> ''E09000033'', ''E1 6AN'' \<mapsto> ''E09000030''],
      built = True\<rparr>)"
    by (simp add: onspd_sample_def eval_defs)
  have c: "pcds_canonical [''pcds'', ''lad25cd'']
     [[''SW1A 1AA'', ''E09000033''], [], [''AB1 0AA'', ''S12000033''], [''E1 6AN'', ''E09000030'']]"
    by (simp add: pcds_canonical_def dict_row_def row_field_def str_strip_quotes_def norm_defs)
  from index_keys_come_from_file [OF b, of "''E1 6AN''" "''E09000030''"] c
  have "normalize_postcode ''E1 6AN'' = ''E1 6AN''"
    by (simp add: onspd_sample_def)
  with b c show ?thesis by simp
qed

subsection \<open>The exceptions of build\<close>

lemma index_rows_error:
  "index_rows fns rows m = (Some e, m') \<Longrightarrow> e = AttributeError"
  by (induction rows arbitrary: m)
     (auto simp: row_field_def split: if_splits sum.splits option.splits)

lemma build_FileNotFoundError_iff:
  assumes "\<not> built idx"
  shows "(\<exists>msg. fst (build fs idx) = Inl (FileNotFoundError msg)) \<longleftrightarrow> fs (onspd_csv_path idx) = None"
  using assms
  by (auto simp: build_def Let_def split: option.splits prod.splits dest: index_rows_error)

lemma build_ValueError_iff:
  assumes "\<not> built idx"
  shows "(\<exists>msg. fst (build fs idx) = Inl (ValueError msg)) \<longleftrightarrow>
         (\<exists>f fns. fs (onspd_csv_path idx) = Some f \<and> fieldnames (csv_rows f) = Some fns \<and>
                   \<not> set REQUIRED_COLUMNS \<subseteq> set fns)"
proof -
  have m: "filter (\<lambda>c. c \<notin> set fns) REQUIRED_COLUMNS = [] \<longleftrightarrow> set REQUIRED_COLUMNS \<subseteq> set fns" for fns
    by (auto simp: filter_empty_conv)
  show ?thesis
    using assms
    by (auto simp: build_def Let_def m simp del: filter_False split: option.splits prod.splits dest: index_rows_error)
qed

lemma build_error_state:
  assumes "fst (build fs idx) = Inl (FileNotFoundError msg) \<or> fst (build fs idx) = Inl (ValueError msg)"
  shows "snd (build fs idx) = idx"
  using assms
  by (auto simp: build_def Let_def split: option.splits prod.splits if_splits dest: index_rows_error)

text \<open>
  Claim C9: \<open>build\<close> raises \<open>ValueError\<close> exactly when the file exists and its header lacks
  \<open>pcds\<close> or \<open>lad25cd\<close>. On a file that exists and is empty, \<open>reader.fieldnames\<close> is \<open>None\<close>
  and the test \<open>c not in reader.fieldnames\<close> raises \<open>TypeError\<close> instead; the object is
  left unchanged. (The lemmas above are the part of the claim that holds: on an object
  not yet built, \<open>FileNotFoundError\<close> is raised exactly when the path does not exist,
  \<open>ValueError\<close> exactly when the file has a header row that lacks one of the two columns,
  and both leave the object unchanged.)
\<close>

theorem build_on_empty_file:
  "build onspd_empty (init_index ''onspd.csv'') = (Inl TypeError, init_index ''onspd.csv'')"
  by (simp add: onspd_empty_def build_def init_index_def)

section \<open>Properties of the command line\<close>











section \<open>Properties of the prediction handler\<close>

lemma sample_valid: "HouseFeatures_valid sample_payload"
  by (simp add: HouseFeatures_valid_def sample_payload_def)

lemma getattr_imd_decile: "getattr x ''imd_decile'' = Inl (no_attribute ''imd_decile'')"
  by (simp add: getattr_def model_fields_def)

lemma build_row_FEATS: "build_row x FEATS [] = Inl (no_attribute ''imd_decile'')"
  by (simp add: FEATS_def CATS_def NUMS_def getattr_def model_fields_def)

lemma predict_FEATS_always_400:
  "predict ops (Some (artifacts m)) x = Inl (HTTPException 400 (exc_str (no_attribute ''imd_decile'')))"
  by (simp add: predict_def predict_try_def art_item_def artifacts_def build_row_FEATS)

lemma predict_serves_estimate:
  assumes "ART ''features'' = Some (Names feats)" and "ART ''model'' = Some (Regressor f)"
    and "build_row x feats [] = Inr row" and "f [map snd row] = Inr (pred_log # rest)"
  shows "predict ops (Some ART) x =
     Inr \<lparr>estimated_price_gbp = round2 ops (np_expm1 ops pred_log), explain = explain_notes\<rparr>"
  using assms by (simp add: predict_def predict_try_def art_item_def)

text \<open>
  Claim C6: for every payload that passes validation, \<open>POST /predict\<close> returns the
  estimate computed from the model of the loaded artifact. With the artifact the training
  script of this repository serializes, whose feature list contains \<open>imd_decile\<close>, the
  handler returns no estimate for any payload: \<open>HouseFeatures\<close> has no field \<open>imd_decile\<close>,
  \<open>getattr\<close> raises \<open>AttributeError\<close>, and the request ends in the error 400. (Lemma
  \<open>predict_serves_estimate\<close> is the claim for an artifact whose features are all fields of
  the payload and whose model returns a prediction.)
\<close>

theorem predict_rejects_trained_artifact:
  "HouseFeatures_valid sample_payload \<and>
   predict ops (Some (artifacts m)) sample_payload =
     Inl (HTTPException 400
       ([CHR 0x27] @ ''HouseFeatures'' @ [CHR 0x27] @ '' object has no attribute ''
         @ [CHR 0x27] @ ''imd_decile'' @ [CHR 0x27]))"
  by (simp add: sample_valid predict_def predict_try_def art_item_def artifacts_def build_row_FEATS no_attribute_def)

text \<open>
  Claim C10. Whatever the artifact and the payload, the handler either returns the
  response of its \<open>try\<close> block or raises \<open>HTTPException\<close> with status 400 and, as detail, the
  string form of the exception the block raised; it raises nothing else. So it does when
  the name \<open>ART\<close> is not bound and when the artifact lacks its \<open>features\<close>.
\<close>

theorem predict_raises_only_http_400:
  "((\<exists>r. predict ops ART x = Inr r \<and> predict_try ops ART x = Inr r) \<or>
    (\<exists>e. predict_try ops ART x = Inl e \<and>
         predict ops ART x = Inl (HTTPException 400 (exc_str e)))) \<and>
   predict ops None x = Inl (HTTPException 400
      (''name '' @ [CHR 0x27] @ ''ART'' @ [CHR 0x27] @ '' is not defined'')) \<and>
   predict ops (Some Map.empty) x = Inl (HTTPException 400 ([CHR 0x27] @ ''features'' @ [CHR 0x27]))"
  by (cases "predict_try ops ART x") (simp_all add: predict_def predict_try_def art_item_def)

lemma build_row_cong:
  "\<forall>k\<in>set ks. getattr x k = getattr y k \<Longrightarrow> build_row x ks d = build_row y ks d"
  by (induction ks arbitrary: d) (auto split: sum.splits)

lemma predict_try_cong:
  assumes "\<forall>k\<in>set (feature_keys ART). getattr x k = getattr y k"
  shows "predict_try ops ART x = predict_try ops ART y"
proof (cases "art_item ART ''features''")
  case (Inl e)
  then show ?thesis by (simp add: predict_try_def)
next
  case feats: (Inr feats)
  show ?thesis
  proof (cases "iterate feats")
    case (Inl e)
    with feats show ?thesis by (simp add: predict_try_def)
  next
    case (Inr ks)
    with feats assms have "build_row x ks [] = build_row y ks []"
      by (intro build_row_cong) (simp add: feature_keys_def)
    with feats Inr show ?thesis by (simp add: predict_try_def)
  qed
qed

text \<open>
  Claim C8. On a built index, two calls of \<open>postcode_to_borough\<close> with the same postcode,
  one after the other, return equal results, whatever the files are at either call. For
  a loaded artifact, \<open>predict\<close> returns equal responses for two payloads that agree on the
  fields its feature list names, and so for two equal payloads. (The fitted model's
  \<open>predict\<close> is a function of the rows it is given.)
\<close>

theorem lookup_and_predict_deterministic:
  "(built idx \<and> postcode_to_borough fs idx p = (r1, idx1) \<and>
      postcode_to_borough fs' idx1 p = (r2, idx2) \<longrightarrow> r1 = r2) \<and>
   ((\<forall>k\<in>set (feature_keys ART). getattr x k = getattr y k) \<longrightarrow>
      predict ops ART x = predict ops ART y)"
proof -
  have "r1 = r2"
    if b: "built idx" and l1: "postcode_to_borough fs idx p = (r1, idx1)"
      and l2: "postcode_to_borough fs' idx1 p = (r2, idx2)"
  proof -
    have "snd (postcode_to_borough fs idx p) = idx"
      by (simp add: lookup_built [OF b])
    with l1 have i: "idx1 = idx" by simp
    have "fst (postcode_to_borough fs idx p) = fst (postcode_to_borough fs' idx p)"
      by (simp add: lookup_built [OF b])
    with l1 l2 i show ?thesis by simp
  qed
  moreover have "predict ops ART x = predict ops ART y"
    if "\<forall>k\<in>set (feature_keys ART). getattr x k = getattr y k"
    using predict_try_cong [OF that] by (simp add: predict_def)
  ultimately show ?thesis by blast
qed

theorem lookup_and_predict_deterministic_witness:
  "built (calls (init_index ''onspd.csv'') [(onspd_sample, Build)]) \<and>
   fst (postcode_to_borough onspd_sample (calls (init_index ''onspd.csv'') [(onspd_sample, Build)]) ''e1 6an'')
     = fst (postcode_to_borough Map.empty (calls (init_index ''onspd.csv'') [(onspd_sample, Build)]) ''e1 6an'') \<and>
   predict sample_ops (Some sample_artifact) sample_payload
     = predict sample_ops (Some sample_artifact) (sample_payload\<lparr>lat := NaN\<rparr>)"
proof -
  let ?idx = "calls (init_index ''onspd.csv'') [(onspd_sample, Build)]"
  have b: "built ?idx" by (simp add: sample_built)
  have k: "\<forall>k\<in>set (feature_keys (Some sample_artifact)).
      getattr sample_payload k = getattr (sample_payload\<lparr>lat := NaN\<rparr>) k"
    by (simp add: feature_keys_def art_item_def sample_artifact_def getattr_def model_fields_def)
  have s: "snd (postcode_to_borough onspd_sample ?idx ''e1 6an'') = ?idx"
    using b by (simp add: lookup_state)
  from lookup_and_predict_deterministic [of ?idx onspd_sample "''e1 6an''"
      "fst (postcode_to_borough onspd_sample ?idx ''e1 6an'')" ?idx Map.empty
      "fst (postcode_to_borough Map.empty ?idx ''e1 6an'')"
      "snd (postcode_to_borough Map.empty ?idx ''e1 6an'')"
      "Some sample_artifact" sample_payload "sample_payload\<lparr>lat := NaN\<rparr>" sample_ops]
  show ?thesis using b k s by (simp add: prod_eq_iff)
qed

section \<open>Properties of the training script\<close>















end
